theory Spec2Isabelle
  imports Main
begin

section \<open>Address codec\<close>

text \<open>
  The address module names a graph entity by three strings and turns such a name into
  one string, with \<open>$\<close> between the parts, and back. The record keeps the field order
  of the Flow type; the field \<open>id\<close> of the source is \<open>id'\<close> here, since \<open>id\<close> is
  the identity function of HOL. A string is the list of its code units, of which the
  functions only ask whether they are \<open>$\<close>.
\<close>

record Address =
  repositoryName :: string
  pluginName :: string
  id' :: string

text \<open>
  Both functions throw \<open>new Error(message)\<close>, and every message ends with the
  \<open>JSON.stringify\<close> of the offending string. An error value says which check threw
  and carries that string, from which the message is made.
\<close>

datatype address_error =
    PluginNameIncludesDollar string
  | RepositoryNameIncludesDollar string
  | IdIncludesDollar string
  | NotExactlyTwoDollars string

text \<open>
  \<open>s.includes("$")\<close> holds when the one-character string \<open>$\<close> occurs in \<open>s\<close>.
\<close>

definition str_includes :: "string \<Rightarrow> char \<Rightarrow> bool" where
  "str_includes s d = (d \<in> set s)"

text \<open>
  \<open>s.split("$")\<close> with a separator of one character: the pieces between the
  separators, in order, empty pieces included. The empty string gives one empty piece,
  so the result is never the empty array; the first branch of the \<open>case\<close> is there
  for totality only.
\<close>

fun split_on :: "char \<Rightarrow> string \<Rightarrow> string list" where
  "split_on d [] = [[]]"
| "split_on d (c # cs) =
     (if c = d then [] # split_on d cs
      else (case split_on d cs of
              [] \<Rightarrow> [[c]]
            | p # ps \<Rightarrow> (c # p) # ps))"

definition addressToString :: "Address \<Rightarrow> address_error + string" where
  "addressToString address =
     (if str_includes (pluginName address) CHR ''$'' then
        Inl (PluginNameIncludesDollar (pluginName address))
      else if str_includes (repositoryName address) CHR ''$'' then
        Inl (RepositoryNameIncludesDollar (repositoryName address))
      else if str_includes (id' address) CHR ''$'' then
        Inl (IdIncludesDollar (id' address))
      else
        Inr (pluginName address @ ''$'' @ repositoryName address @ ''$'' @ id' address))"

definition stringToAddress :: "string \<Rightarrow> address_error + Address" where
  "stringToAddress string =
     (let parts = split_on CHR ''$'' string in
      if length parts \<noteq> 3 then Inl (NotExactlyTwoDollars string)
      else Inr \<lparr>repositoryName = parts ! 1, pluginName = parts ! 0, id' = parts ! 2\<rparr>)"

section \<open>Application state\<close>

text \<open>
  The state of the cred explorer is a tagged union, and so is the substate of an
  initialized application. The types \<open>Repo\<close>, \<open>EdgeEvaluator\<close>, \<open>Graph\<close>,
  \<open>DynamicAdapterSet\<close>, \<open>PagerankNodeDecomposition\<close>, \<open>Assets\<close> and
  \<open>NodeAddressT\<close> are declared in other modules and the machine only passes their
  values on: they are the type variables \<open>'r\<close>, \<open>'e\<close>, \<open>'g\<close>, \<open>'d\<close>, \<open>'p\<close>,
  \<open>'a\<close> and \<open>'n\<close>. The values a collaborator throws have the type \<open>'x\<close>.
  Constructors take their arguments in the order of the fields of the Flow types.
\<close>

datatype LoadingState = NOT_LOADING | LOADING | FAILED

record ('g, 'd) GraphWithAdapters =
  graph :: 'g
  adapters :: 'd

datatype ('g, 'd, 'p) AppSubstate =
    READY_TO_LOAD_GRAPH (loading: LoadingState)
  | READY_TO_RUN_PAGERANK
      (graphWithAdapters: "('g, 'd) GraphWithAdapters") (loading: LoadingState)
  | PAGERANK_EVALUATED
      (graphWithAdapters: "('g, 'd) GraphWithAdapters") (pagerankNodeDecomposition: 'p)
      (loading: LoadingState)

datatype ('e, 'r, 'g, 'd, 'p) AppState =
    UNINITIALIZED "'e option" "'r option"
  | INITIALIZED 'e 'r "('g, 'd, 'p) AppSubstate"

definition initialState :: "('e, 'r, 'g, 'd, 'p) AppState" where
  "initialState = UNINITIALIZED None None"

text \<open>
  \<open>{...substate, loading: l}\<close>: the same variant with the same payload and a new
  loading status.
\<close>

fun with_loading :: "('g, 'd, 'p) AppSubstate \<Rightarrow> LoadingState \<Rightarrow> ('g, 'd, 'p) AppSubstate" where
  "with_loading (READY_TO_LOAD_GRAPH _) l = READY_TO_LOAD_GRAPH l"
| "with_loading (READY_TO_RUN_PAGERANK gwa _) l = READY_TO_RUN_PAGERANK gwa l"
| "with_loading (PAGERANK_EVALUATED gwa pnd _) l = PAGERANK_EVALUATED gwa pnd l"

text \<open>
  \<open>deepEqual\<close> is lodash's \<open>isEqual\<close>: it compares plain objects field by field, so on
  these datatypes it is equality, given that equality on the opaque types stands
  for what \<open>isEqual\<close> answers on their values (for an edge evaluator, a function, that
  is identity).
\<close>

definition deepEqual ::
  "('e, 'r, 'g, 'd, 'p) AppState \<Rightarrow> ('e, 'r, 'g, 'd, 'p) AppState \<Rightarrow> bool" where
  "deepEqual s t = (s = t)"

section \<open>The world of the state transition machine\<close>

text \<open>
  The machine reads and writes one cell through \<open>getState\<close> and \<open>setState\<close>, prints
  what its collaborators throw with \<open>console.error\<close>, and calls its two collaborators,
  \<open>loadGraphWithAdapters\<close> and \<open>pagerank\<close>. The world holds the cell, the values
  printed so far and the calls made so far, oldest first.
\<close>

record 'n PagerankOptions =
  verbose :: bool
  totalScoreNodePrefix :: 'n

datatype ('e, 'r, 'g, 'a, 'n) call =
    LoadGraphWithAdapters_call 'a 'r
  | Pagerank_call 'g 'e "'n PagerankOptions"

record ('e, 'r, 'g, 'd, 'p, 'x, 'a, 'n) world =
  cell :: "('e, 'r, 'g, 'd, 'p) AppState"
  console :: "'x list"
  invoked :: "('e, 'r, 'g, 'a, 'n) call list"

definition getState ::
  "('e, 'r, 'g, 'd, 'p, 'x, 'a, 'n) world \<Rightarrow> ('e, 'r, 'g, 'd, 'p) AppState" where
  "getState w = cell w"

definition setState ::
  "('e, 'r, 'g, 'd, 'p) AppState \<Rightarrow> ('e, 'r, 'g, 'd, 'p, 'x, 'a, 'n) world
    \<Rightarrow> ('e, 'r, 'g, 'd, 'p, 'x, 'a, 'n) world" where
  "setState s w = w\<lparr>cell := s\<rparr>"

definition console_error ::
  "'x \<Rightarrow> ('e, 'r, 'g, 'd, 'p, 'x, 'a, 'n) world \<Rightarrow> ('e, 'r, 'g, 'd, 'p, 'x, 'a, 'n) world" where
  "console_error e w = w\<lparr>console := console w @ [e]\<rparr>"

definition calling ::
  "('e, 'r, 'g, 'a, 'n) call \<Rightarrow> ('e, 'r, 'g, 'd, 'p, 'x, 'a, 'n) world
    \<Rightarrow> ('e, 'r, 'g, 'd, 'p, 'x, 'a, 'n) world" where
  "calling c w = w\<lparr>invoked := invoked w @ [c]\<rparr>"

text \<open>
  The two collaborators return promises. A promise that settles is fulfilled with a
  value (\<open>Inr\<close>) or rejected with a thrown value (\<open>Inl\<close>); the record holds, for each
  collaborator, how the promise of a call settles.
\<close>

record ('e, 'r, 'g, 'd, 'p, 'x, 'a, 'n) StateTransitionMachine =
  loadGraphWithAdapters :: "'a \<Rightarrow> 'r \<Rightarrow> 'x + ('g, 'd) GraphWithAdapters"
  pagerank :: "'g \<Rightarrow> 'e \<Rightarrow> 'n PagerankOptions \<Rightarrow> 'x + 'p"

text \<open>
  The machine throws \<open>new Error(message)\<close> when it is called in a wrong state. The
  other error is the one of \<open>NullUtil.get\<close> below.
\<close>

datatype error = Error string | AbsentValue

text \<open>
  Modelled from the spec: the helper \<open>NullUtil.get\<close> of the module \<open>util/null\<close>,
  which \<open>runPagerank\<close> applies to its candidate state before it commits it. The spec
  has the candidate committed as it is when the guard holds, so the helper returns a
  value that is present; for \<open>null\<close> and \<open>undefined\<close> it throws.
\<close>

definition NullUtil_get :: "'v option \<Rightarrow> error + 'v" where
  "NullUtil_get x = (case x of None \<Rightarrow> Inl AbsentValue | Some v \<Rightarrow> Inr v)"

section \<open>Synchronous transitions\<close>

text \<open>
  \<open>_maybeInitialize\<close> takes an \<open>Uninitialized\<close> state, here its two fields.
  \<open>x != null\<close> is false for \<open>null\<close> and for \<open>undefined\<close>, the two absent values.
\<close>

definition maybeInitialize :: "'e option \<Rightarrow> 'r option \<Rightarrow> ('e, 'r, 'g, 'd, 'p) AppState" where
  "maybeInitialize edgeEvaluator repo =
     (if repo \<noteq> None \<and> edgeEvaluator \<noteq> None then
        (let substate = READY_TO_LOAD_GRAPH NOT_LOADING in
         INITIALIZED (the edgeEvaluator) (the repo) substate)
      else UNINITIALIZED edgeEvaluator repo)"

definition setRepo ::
  "'r \<Rightarrow> ('e, 'r, 'g, 'd, 'p, 'x, 'a, 'n) world \<Rightarrow> ('e, 'r, 'g, 'd, 'p, 'x, 'a, 'n) world" where
  "setRepo repo w =
     (case getState w of
        UNINITIALIZED edgeEvaluator _ \<Rightarrow>
          (let newState = maybeInitialize edgeEvaluator (Some repo) in
           setState newState w)
      | INITIALIZED edgeEvaluator _ _ \<Rightarrow>
          (let substate = READY_TO_LOAD_GRAPH NOT_LOADING;
               newState = INITIALIZED edgeEvaluator repo substate in
           setState newState w))"

definition setEdgeEvaluator ::
  "'e \<Rightarrow> ('e, 'r, 'g, 'd, 'p, 'x, 'a, 'n) world \<Rightarrow> ('e, 'r, 'g, 'd, 'p, 'x, 'a, 'n) world" where
  "setEdgeEvaluator edgeEvaluator w =
     (case getState w of
        UNINITIALIZED _ repo \<Rightarrow>
          (let newState = maybeInitialize (Some edgeEvaluator) repo in
           setState newState w)
      | INITIALIZED _ repo substate \<Rightarrow>
          (let newState = INITIALIZED edgeEvaluator repo substate in
           setState newState w))"

section \<open>Asynchronous transitions\<close>

text \<open>
  An \<open>async\<close> method runs until its \<open>await\<close>, and goes on when the awaited promise has
  settled; whatever else the program does in between runs on the same cell. Each
  \<open>await\<close> of the source is therefore a place where the model applies a function on
  worlds, given as an argument: what the rest of the program does while the method
  waits there. The identity is an \<open>await\<close> during which nothing else runs.

  \<open>loadGraph\<close> has one \<open>await\<close>, on the promise of \<open>loadGraphWithAdapters\<close>. Its
  precondition throws before anything is written. \<open>newState\<close> is assigned on both
  paths of the \<open>try\<close>.
\<close>

definition loadGraph ::
  "('e, 'r, 'g, 'd, 'p, 'x, 'a, 'n) StateTransitionMachine
    \<Rightarrow> (('e, 'r, 'g, 'd, 'p, 'x, 'a, 'n) world \<Rightarrow> ('e, 'r, 'g, 'd, 'p, 'x, 'a, 'n) world)
    \<Rightarrow> 'a \<Rightarrow> ('e, 'r, 'g, 'd, 'p, 'x, 'a, 'n) world
    \<Rightarrow> error + (('e, 'r, 'g, 'd, 'p, 'x, 'a, 'n) world \<times> bool)" where
  "loadGraph m meanwhile assets w =
     (case getState w of
        UNINITIALIZED _ _ \<Rightarrow> Inl (Error ''Tried to loadGraph in incorrect state'')
      | INITIALIZED edgeEvaluator repo substate \<Rightarrow>
          (case substate of
             READY_TO_LOAD_GRAPH _ \<Rightarrow>
               (let loadingState = INITIALIZED edgeEvaluator repo (with_loading substate LOADING);
                    w1 = setState loadingState w;
                    w2 = calling (LoadGraphWithAdapters_call assets repo) w1;
                    w3 = meanwhile w2;
                    (newState, success, w4) =
                      (case loadGraphWithAdapters m assets repo of
                         Inr gwa \<Rightarrow>
                           (INITIALIZED edgeEvaluator repo
                              (READY_TO_RUN_PAGERANK gwa NOT_LOADING),
                            True, w3)
                       | Inl e \<Rightarrow>
                           (INITIALIZED edgeEvaluator repo (with_loading substate FAILED),
                            False, console_error e w3))
                in if deepEqual (getState w4) loadingState
                   then Inr (setState newState w4, success)
                   else Inr (w4, False))
           | _ \<Rightarrow> Inl (Error ''Tried to loadGraph in incorrect state'')))"

text \<open>
  \<open>runPagerank\<close> has the same shape, with one \<open>await\<close> on the promise of
  \<open>pagerank\<close>. Its promise resolves to \<open>undefined\<close>: the value returned is \<open>()\<close>.
  Here \<open>newState\<close> goes through \<open>NullUtil.get\<close>, so it is kept as the optional
  value the source declares; both paths of the \<open>try\<close> assign it.
\<close>

definition runPagerank ::
  "('e, 'r, 'g, 'd, 'p, 'x, 'a, 'n) StateTransitionMachine
    \<Rightarrow> (('e, 'r, 'g, 'd, 'p, 'x, 'a, 'n) world \<Rightarrow> ('e, 'r, 'g, 'd, 'p, 'x, 'a, 'n) world)
    \<Rightarrow> 'n \<Rightarrow> ('e, 'r, 'g, 'd, 'p, 'x, 'a, 'n) world
    \<Rightarrow> error + (('e, 'r, 'g, 'd, 'p, 'x, 'a, 'n) world \<times> unit)" where
  "runPagerank m meanwhile prefix w =
     (case getState w of
        UNINITIALIZED _ _ \<Rightarrow> Inl (Error ''Tried to runPagerank in incorrect state'')
      | INITIALIZED edgeEvaluator repo substate \<Rightarrow>
          (case substate of
             READY_TO_LOAD_GRAPH _ \<Rightarrow> Inl (Error ''Tried to runPagerank in incorrect state'')
           | _ \<Rightarrow>
               (let loadingSubstate = with_loading substate LOADING;
                    loadingState = INITIALIZED edgeEvaluator repo loadingSubstate;
                    w1 = setState loadingState w;
                    g = graph (graphWithAdapters substate);
                    options = \<lparr>verbose = True, totalScoreNodePrefix = prefix\<rparr>;
                    w2 = calling (Pagerank_call g edgeEvaluator options) w1;
                    w3 = meanwhile w2;
                    (newState, w4) =
                      (case pagerank m g edgeEvaluator options of
                         Inr pnd \<Rightarrow>
                           (let newSubstate =
                                  PAGERANK_EVALUATED (graphWithAdapters substate)
                                    pnd NOT_LOADING
                            in (Some (INITIALIZED edgeEvaluator repo newSubstate), w3))
                       | Inl e \<Rightarrow>
                           (let failedSubstate = with_loading substate FAILED
                            in (Some (INITIALIZED edgeEvaluator repo failedSubstate),
                                console_error e w3)))
                in if deepEqual (getState w4) loadingState
                   then (case NullUtil_get newState of
                           Inl err \<Rightarrow> Inl err
                         | Inr s \<Rightarrow> Inr (setState s w4, ()))
                   else Inr (w4, ()))))"

text \<open>
  \<open>loadGraphAndRunPagerank\<close> awaits the promises of \<open>loadGraph\<close> and of
  \<open>runPagerank\<close>, so it waits in four places: inside \<open>loadGraph\<close>, for the promise
  of \<open>loadGraph\<close>, inside \<open>runPagerank\<close>, and for the promise of \<open>runPagerank\<close>. An
  error thrown by either method is thrown on by the \<open>await\<close>.
\<close>

record 'w awaits =
  during_load :: "'w \<Rightarrow> 'w"
  after_load :: "'w \<Rightarrow> 'w"
  during_pagerank :: "'w \<Rightarrow> 'w"
  after_pagerank :: "'w \<Rightarrow> 'w"

text \<open>The schedule of a call during which nothing else in the program runs.\<close>

definition idle :: "'w awaits" where
  "idle = \<lparr>during_load = (\<lambda>w. w), after_load = (\<lambda>w. w),
            during_pagerank = (\<lambda>w. w), after_pagerank = (\<lambda>w. w)\<rparr>"

definition await_runPagerank ::
  "('e, 'r, 'g, 'd, 'p, 'x, 'a, 'n) StateTransitionMachine
    \<Rightarrow> ('e, 'r, 'g, 'd, 'p, 'x, 'a, 'n) world awaits
    \<Rightarrow> 'n \<Rightarrow> ('e, 'r, 'g, 'd, 'p, 'x, 'a, 'n) world
    \<Rightarrow> error + (('e, 'r, 'g, 'd, 'p, 'x, 'a, 'n) world \<times> unit)" where
  "await_runPagerank m sched prefix w =
     (case runPagerank m (during_pagerank sched) prefix w of
        Inl e \<Rightarrow> Inl e
      | Inr (w', u) \<Rightarrow> Inr (after_pagerank sched w', ()))"

definition loadGraphAndRunPagerank ::
  "('e, 'r, 'g, 'd, 'p, 'x, 'a, 'n) StateTransitionMachine
    \<Rightarrow> ('e, 'r, 'g, 'd, 'p, 'x, 'a, 'n) world awaits
    \<Rightarrow> 'a \<Rightarrow> 'n \<Rightarrow> ('e, 'r, 'g, 'd, 'p, 'x, 'a, 'n) world
    \<Rightarrow> error + (('e, 'r, 'g, 'd, 'p, 'x, 'a, 'n) world \<times> unit)" where
  "loadGraphAndRunPagerank m sched assets prefix w =
     (case getState w of
        UNINITIALIZED _ _ \<Rightarrow> Inl (Error ''Tried to load and run from incorrect state'')
      | INITIALIZED _ _ substate \<Rightarrow>
          (case substate of
             READY_TO_LOAD_GRAPH _ \<Rightarrow>
               (case loadGraph m (during_load sched) assets w of
                  Inl e \<Rightarrow> Inl e
                | Inr (w', loadedGraph) \<Rightarrow>
                    (let w'' = after_load sched w' in
                     if loadedGraph then await_runPagerank m sched prefix w''
                     else Inr (w'', ())))
           | READY_TO_RUN_PAGERANK _ _ \<Rightarrow> await_runPagerank m sched prefix w
           | PAGERANK_EVALUATED _ _ _ \<Rightarrow> await_runPagerank m sched prefix w))"

section \<open>Example values\<close>

text \<open>
  A machine and three worlds on which the theorems below are run. Here an edge
  evaluator, a graph, an adapter set, a decomposition and the assets are numbers, and a
  repository, a node prefix and a thrown value are strings. The loader of the example
  knows one repository and rejects every other one.
\<close>

definition example_machine ::
  "(nat, string, nat, nat, nat, string, nat, string) StateTransitionMachine" where
  "example_machine =
     \<lparr>loadGraphWithAdapters =
        (\<lambda>assets repo. if repo = ''sourcecred/example''
                        then Inr \<lparr>graph = 1, adapters = 2\<rparr> else Inl ''not found''),
      pagerank = (\<lambda>g edgeEvaluator options. Inr (g + edgeEvaluator))\<rparr>"

definition example_ready :: "(nat, string, nat, nat, nat, string, nat, string) world" where
  "example_ready =
     \<lparr>cell = INITIALIZED 5 ''sourcecred/example'' (READY_TO_LOAD_GRAPH NOT_LOADING),
      console = [], invoked = []\<rparr>"

definition example_missing :: "(nat, string, nat, nat, nat, string, nat, string) world" where
  "example_missing =
     \<lparr>cell = INITIALIZED 5 ''missing'' (READY_TO_LOAD_GRAPH NOT_LOADING),
      console = [], invoked = []\<rparr>"

definition example_loaded :: "(nat, string, nat, nat, nat, string, nat, string) world" where
  "example_loaded =
     \<lparr>cell = INITIALIZED 5 ''sourcecred/example''
               (READY_TO_RUN_PAGERANK \<lparr>graph = 1, adapters = 2\<rparr> NOT_LOADING),
      console = [], invoked = []\<rparr>"

section \<open>Properties of the address codec\<close>

lemma split_on_not_Nil: "split_on d s \<noteq> []"
  by (induction s) (auto split: list.splits)

lemma length_split_on: "length (split_on d s) = Suc (count_list s d)"
proof (induction s)
  case Nil
  show ?case by simp
next
  case (Cons c cs)
  obtain p ps where "split_on d cs = p # ps"
    using split_on_not_Nil [of d cs] by (cases "split_on d cs") auto
  with Cons show ?case by auto
qed

lemma split_on_free: "d \<notin> set s \<Longrightarrow> split_on d s = [s]"
  by (induction s) auto

lemma split_on_append: "d \<notin> set a \<Longrightarrow> split_on d (a @ d # rest) = a # split_on d rest"
  by (induction a) auto

lemma split_on_three:
  assumes "d \<notin> set a" and "d \<notin> set b" and "d \<notin> set c"
  shows "split_on d (a @ d # b @ d # c) = [a, b, c]"
  using assms by (simp add: split_on_append split_on_free)

text \<open>
  C4. For every address whose three fields are free of \<open>$\<close>, the encoding succeeds and
  decoding the encoded string gives the address back.
\<close>

theorem stringToAddress_addressToString:
  assumes "\<not> str_includes (pluginName a) CHR ''$''"
    and "\<not> str_includes (repositoryName a) CHR ''$''"
    and "\<not> str_includes (id' a) CHR ''$''"
  shows "\<exists>s. addressToString a = Inr s \<and> stringToAddress s = Inr a"
proof -
  let ?s = "pluginName a @ ''$'' @ repositoryName a @ ''$'' @ id' a"
  have enc: "addressToString a = Inr ?s"
    using assms by (simp add: addressToString_def)
  have parts: "split_on CHR ''$'' ?s = [pluginName a, repositoryName a, id' a]"
    using assms split_on_three [of "CHR ''$''" "pluginName a" "repositoryName a" "id' a"]
    by (simp add: str_includes_def)
  have "stringToAddress ?s = Inr a"
    unfolding stringToAddress_def parts by simp
  with enc show ?thesis by blast
qed

theorem stringToAddress_addressToString_witness:
  "\<exists>s. addressToString \<lparr>repositoryName = ''sourcecred/sourcecred'', pluginName = ''github'',
          id' = ''issue/7''\<rparr> = Inr s
     \<and> stringToAddress s = Inr \<lparr>repositoryName = ''sourcecred/sourcecred'',
          pluginName = ''github'', id' = ''issue/7''\<rparr>"
  using stringToAddress_addressToString
    [of "\<lparr>repositoryName = ''sourcecred/sourcecred'', pluginName = ''github'', id' = ''issue/7''\<rparr>"]
  by (simp add: str_includes_def)

text \<open>
  C5. Encoding throws exactly when one of the three fields contains \<open>$\<close>, and decoding
  throws exactly when the number of \<open>$\<close> in the input is not two; in every other case
  each returns a value.
\<close>

theorem codec_fails_exactly:
  "(isl (addressToString a) =
      (str_includes (pluginName a) CHR ''$'' \<or> str_includes (repositoryName a) CHR ''$''
        \<or> str_includes (id' a) CHR ''$''))
   \<and> (isl (stringToAddress s) = (count_list s CHR ''$'' \<noteq> 2))"
proof
  show "isl (addressToString a) =
      (str_includes (pluginName a) CHR ''$'' \<or> str_includes (repositoryName a) CHR ''$''
        \<or> str_includes (id' a) CHR ''$'')"
    by (simp add: addressToString_def)
  have "length (split_on CHR ''$'' s) \<noteq> 3 \<longleftrightarrow> count_list s CHR ''$'' \<noteq> 2"
    by (simp add: length_split_on)
  then show "isl (stringToAddress s) = (count_list s CHR ''$'' \<noteq> 2)"
    by (simp add: stringToAddress_def Let_def)
qed

theorem codec_fails_exactly_witness:
  "isl (addressToString \<lparr>repositoryName = ''a$b'', pluginName = ''git'', id' = ''x''\<rparr>)
   \<and> isl (stringToAddress ''git$a$b$x'')
   \<and> \<not> isl (stringToAddress ''git$ab$x'')"
  using codec_fails_exactly
    [of "\<lparr>repositoryName = ''a$b'', pluginName = ''git'', id' = ''x''\<rparr>" "''git$a$b$x''"]
    codec_fails_exactly
    [of "\<lparr>repositoryName = ''a$b'', pluginName = ''git'', id' = ''x''\<rparr>" "''git$ab$x''"]
  by (simp add: str_includes_def)

section \<open>Properties of the state transition machine\<close>

text \<open>
  The accessors, \<open>console.error\<close>, the record of calls and \<open>deepEqual\<close> unfold
  together, and so do the example values.
\<close>

lemmas world_ops = getState_def setState_def console_error_def calling_def deepEqual_def

lemmas examples = example_machine_def example_ready_def example_missing_def example_loaded_def

subsection \<open>Synchronous transitions\<close>

lemma fold_setRepo:
  "getState w = UNINITIALIZED None x \<Longrightarrow>
    getState (fold setRepo rs w) = UNINITIALIZED None (if rs = [] then x else Some (last rs))"
proof (induction rs arbitrary: w x)
  case Nil
  then show ?case by simp
next
  case (Cons a rs)
  have "getState (setRepo a w) = UNINITIALIZED None (Some a)"
    using Cons.prems by (simp add: setRepo_def maybeInitialize_def world_ops)
  from Cons.IH [OF this] show ?case by simp
qed

lemma fold_setEdgeEvaluator:
  "getState w = UNINITIALIZED x None \<Longrightarrow>
    getState (fold setEdgeEvaluator es w)
      = UNINITIALIZED (if es = [] then x else Some (last es)) None"
proof (induction es arbitrary: w x)
  case Nil
  then show ?case by simp
next
  case (Cons a es)
  have "getState (setEdgeEvaluator a w) = UNINITIALIZED (Some a) None"
    using Cons.prems by (simp add: setEdgeEvaluator_def maybeInitialize_def world_ops)
  from Cons.IH [OF this] show ?case by simp
qed

text \<open>
  C6. From the initial state, \<open>setRepo\<close> alone and \<open>setEdgeEvaluator\<close> alone leave
  the state uninitialized, the second setter (in either order) makes it initialized with
  the substate \<open>READY_TO_LOAD_GRAPH\<close>, \<open>NOT_LOADING\<close>, and any number of calls of one
  setter only leaves it uninitialized.
\<close>

theorem initialization:
  fixes w :: "('e, 'r, 'g, 'd, 'p, 'x, 'a, 'n) world"
  defines "w0 \<equiv> setState initialState w"
  shows "getState (setRepo r w0) = UNINITIALIZED None (Some r)
    \<and> getState (setEdgeEvaluator e (setRepo r w0))
        = INITIALIZED e r (READY_TO_LOAD_GRAPH NOT_LOADING)
    \<and> getState (setEdgeEvaluator e w0) = UNINITIALIZED (Some e) None
    \<and> getState (setRepo r (setEdgeEvaluator e w0))
        = INITIALIZED e r (READY_TO_LOAD_GRAPH NOT_LOADING)
    \<and> getState (fold setRepo rs w0)
        = UNINITIALIZED None (if rs = [] then None else Some (last rs))
    \<and> getState (fold setEdgeEvaluator es w0)
        = UNINITIALIZED (if es = [] then None else Some (last es)) None"
proof -
  have init: "getState w0 = UNINITIALIZED None None"
    by (simp add: w0_def initialState_def world_ops)
  have a: "getState (setRepo r w0) = UNINITIALIZED None (Some r)"
    using init by (simp add: setRepo_def maybeInitialize_def world_ops)
  have b: "getState (setEdgeEvaluator e w0) = UNINITIALIZED (Some e) None"
    using init by (simp add: setEdgeEvaluator_def maybeInitialize_def world_ops)
  have c: "getState (setEdgeEvaluator e (setRepo r w0))
      = INITIALIZED e r (READY_TO_LOAD_GRAPH NOT_LOADING)"
    using a by (simp add: setEdgeEvaluator_def maybeInitialize_def world_ops)
  have d: "getState (setRepo r (setEdgeEvaluator e w0))
      = INITIALIZED e r (READY_TO_LOAD_GRAPH NOT_LOADING)"
    using b by (simp add: setRepo_def maybeInitialize_def world_ops)
  show ?thesis
    using a b c d fold_setRepo [OF init] fold_setEdgeEvaluator [OF init] by simp
qed

theorem initialization_witness:
  "getState (setEdgeEvaluator 5 (setRepo ''sourcecred/example'' (setState initialState example_loaded)))
     = INITIALIZED 5 ''sourcecred/example'' (READY_TO_LOAD_GRAPH NOT_LOADING)
   \<and> getState (setRepo ''sourcecred/example'' (setEdgeEvaluator 5 (setState initialState example_loaded)))
     = INITIALIZED 5 ''sourcecred/example'' (READY_TO_LOAD_GRAPH NOT_LOADING)
   \<and> getState (fold setRepo [''a'', ''b'', ''c''] (setState initialState example_loaded))
     = UNINITIALIZED None (Some ''c'')
   \<and> getState (fold setEdgeEvaluator [1, 2] (setState initialState example_loaded))
     = UNINITIALIZED (Some 2) None"
  using initialization [where e = 5 and r = "''sourcecred/example''" and w = example_loaded
      and rs = "[''a'', ''b'', ''c'']" and es = "[1, 2]"]
  by simp

text \<open>
  C7. In an initialized state, whatever its substate and loading status, \<open>setRepo\<close>
  writes the state with the new repository, the same edge evaluator and the substate
  \<open>READY_TO_LOAD_GRAPH\<close>, \<open>NOT_LOADING\<close>; that state holds no graph and no
  decomposition.
\<close>

theorem setRepo_INITIALIZED:
  assumes "getState w = INITIALIZED e r sub"
  shows "setRepo r2 w = setState (INITIALIZED e r2 (READY_TO_LOAD_GRAPH NOT_LOADING)) w"
  using assms by (simp add: setRepo_def Let_def)

theorem setRepo_INITIALIZED_witness:
  "setRepo ''other/repo''
     \<lparr>cell = INITIALIZED (5::nat) ''sourcecred/example''
               (PAGERANK_EVALUATED \<lparr>graph = (1::nat), adapters = (2::nat)\<rparr> (6::nat) FAILED),
      console = ([]::string list), invoked = ([]::(nat, string, nat, nat, string) call list)\<rparr>
   = \<lparr>cell = INITIALIZED 5 ''other/repo'' (READY_TO_LOAD_GRAPH NOT_LOADING),
      console = [], invoked = []\<rparr>"
  using setRepo_INITIALIZED
    [where w = "\<lparr>cell = INITIALIZED (5::nat) ''sourcecred/example''
               (PAGERANK_EVALUATED \<lparr>graph = (1::nat), adapters = (2::nat)\<rparr> (6::nat) FAILED),
      console = ([]::string list), invoked = ([]::(nat, string, nat, nat, string) call list)\<rparr>"
        and ?r2.0 = "''other/repo''"]
  by (simp add: world_ops)

text \<open>
  C8. In an initialized state \<open>setEdgeEvaluator\<close> writes the state with the new edge
  evaluator and the same repository and substate.
\<close>

theorem setEdgeEvaluator_INITIALIZED:
  assumes "getState w = INITIALIZED e r sub"
  shows "setEdgeEvaluator e2 w = setState (INITIALIZED e2 r sub) w"
  using assms by (simp add: setEdgeEvaluator_def Let_def)

theorem setEdgeEvaluator_INITIALIZED_witness:
  "setEdgeEvaluator 9 (example_loaded\<lparr>cell := INITIALIZED 5 ''sourcecred/example''
               (PAGERANK_EVALUATED \<lparr>graph = 1, adapters = 2\<rparr> 6 LOADING)\<rparr>)
   = example_loaded\<lparr>cell := INITIALIZED 9 ''sourcecred/example''
               (PAGERANK_EVALUATED \<lparr>graph = 1, adapters = 2\<rparr> 6 LOADING)\<rparr>"
  using setEdgeEvaluator_INITIALIZED
    [where w = "example_loaded\<lparr>cell := INITIALIZED 5 ''sourcecred/example''
               (PAGERANK_EVALUATED \<lparr>graph = 1, adapters = 2\<rparr> 6 LOADING)\<rparr>"
        and ?e2.0 = 9]
  by (simp add: world_ops)

subsection \<open>The staleness guard\<close>

text \<open>
  \<open>setRepo\<close> never writes the state a \<open>loadGraph\<close> waits in, and
  \<open>setEdgeEvaluator\<close> never writes a state with another edge evaluator than its
  argument.
\<close>

lemma setRepo_state:
  "getState (setRepo r2 v) \<noteq> INITIALIZED e r (READY_TO_LOAD_GRAPH LOADING)"
  by (cases "cell v") (auto simp: setRepo_def maybeInitialize_def world_ops Let_def)

lemma setEdgeEvaluator_state:
  "e2 \<noteq> e \<Longrightarrow> getState (setEdgeEvaluator e2 v) \<noteq> INITIALIZED e r sub"
  by (cases "cell v") (auto simp: setEdgeEvaluator_def maybeInitialize_def world_ops Let_def)

text \<open>
  What \<open>loadGraph\<close> and \<open>runPagerank\<close> return when the state they read on resuming
  is not, or is, the loading state they wrote.
\<close>

lemma loadGraph_stale_state:
  assumes "getState w = INITIALIZED e r (READY_TO_LOAD_GRAPH l)"
    and "getState (meanwhile (calling (LoadGraphWithAdapters_call assets r)
            (setState (INITIALIZED e r (READY_TO_LOAD_GRAPH LOADING)) w)))
          \<noteq> INITIALIZED e r (READY_TO_LOAD_GRAPH LOADING)"
  shows "\<exists>w'. loadGraph m meanwhile assets w = Inr (w', False) \<and>
     getState w' = getState (meanwhile (calling (LoadGraphWithAdapters_call assets r)
            (setState (INITIALIZED e r (READY_TO_LOAD_GRAPH LOADING)) w)))"
  using assms
  by (simp add: loadGraph_def world_ops Let_def split: sum.splits)

lemma loadGraph_fresh:
  assumes "getState w = INITIALIZED e r (READY_TO_LOAD_GRAPH l)"
    and "getState (meanwhile (calling (LoadGraphWithAdapters_call assets r)
            (setState (INITIALIZED e r (READY_TO_LOAD_GRAPH LOADING)) w)))
          = INITIALIZED e r (READY_TO_LOAD_GRAPH LOADING)"
  shows "loadGraph m meanwhile assets w =
      (case loadGraphWithAdapters m assets r of
             Inr g \<Rightarrow> Inr (setState (INITIALIZED e r (READY_TO_RUN_PAGERANK g NOT_LOADING))
               (meanwhile (calling (LoadGraphWithAdapters_call assets r)
                (setState (INITIALIZED e r (READY_TO_LOAD_GRAPH LOADING)) w))), True)
           | Inl x \<Rightarrow> Inr (setState (INITIALIZED e r (READY_TO_LOAD_GRAPH FAILED))
               (console_error x (meanwhile (calling (LoadGraphWithAdapters_call assets r)
                (setState (INITIALIZED e r (READY_TO_LOAD_GRAPH LOADING)) w)))), False))"
  using assms
  by (simp add: loadGraph_def world_ops Let_def split: sum.splits)

lemma runPagerank_stale:
  assumes "getState w = INITIALIZED e r sub" and "\<not> is_READY_TO_LOAD_GRAPH sub"
    and "getState (meanwhile (calling (Pagerank_call (graph (graphWithAdapters sub)) e
              \<lparr>verbose = True, totalScoreNodePrefix = prefix\<rparr>)
            (setState (INITIALIZED e r (with_loading sub LOADING)) w)))
          \<noteq> INITIALIZED e r (with_loading sub LOADING)"
  shows "\<exists>w'. runPagerank m meanwhile prefix w = Inr (w', ()) \<and>
     getState w' = getState (meanwhile (calling (Pagerank_call (graph (graphWithAdapters sub)) e
              \<lparr>verbose = True, totalScoreNodePrefix = prefix\<rparr>)
            (setState (INITIALIZED e r (with_loading sub LOADING)) w)))"
  using assms
  by (cases sub) (auto simp add: runPagerank_def world_ops Let_def split: sum.splits)

lemma runPagerank_fresh:
  assumes "getState w = INITIALIZED e r sub" and "\<not> is_READY_TO_LOAD_GRAPH sub"
    and "getState (meanwhile (calling (Pagerank_call (graph (graphWithAdapters sub)) e
              \<lparr>verbose = True, totalScoreNodePrefix = prefix\<rparr>)
            (setState (INITIALIZED e r (with_loading sub LOADING)) w)))
          = INITIALIZED e r (with_loading sub LOADING)"
  shows "\<exists>w'. runPagerank m meanwhile prefix w = Inr (w', ())"
  using assms
  by (cases sub)
    (auto simp add: runPagerank_def NullUtil_get_def world_ops Let_def split: sum.splits)

text \<open>
  C3. When the state read after the loader has settled is still the loading state,
  \<open>loadGraph\<close> commits its candidate: on a fulfilled promise the substate is
  \<open>READY_TO_RUN_PAGERANK\<close> with the graph and \<open>NOT_LOADING\<close> and the result is
  \<open>true\<close>; on a rejected promise the thrown value is printed, the substate is
  \<open>READY_TO_LOAD_GRAPH\<close> with \<open>FAILED\<close> and the result is \<open>false\<close>. In both
  cases \<open>loadGraph\<close> returns and does not throw.
\<close>

theorem loadGraph_commits:
  fixes w :: "('e, 'r, 'g, 'd, 'p, 'x, 'a, 'n) world" and e :: 'e and r :: 'r and assets :: 'a
    and meanwhile :: "('e, 'r, 'g, 'd, 'p, 'x, 'a, 'n) world \<Rightarrow> ('e, 'r, 'g, 'd, 'p, 'x, 'a, 'n) world"
  defines "loadingState \<equiv> INITIALIZED e r (READY_TO_LOAD_GRAPH LOADING)"
  defines "w1 \<equiv> meanwhile (calling (LoadGraphWithAdapters_call assets r) (setState loadingState w))"
  assumes "getState w = INITIALIZED e r (READY_TO_LOAD_GRAPH l)"
    and "getState w1 = loadingState"
  shows "loadGraph m meanwhile assets w =
    (case loadGraphWithAdapters m assets r of
       Inr g \<Rightarrow>
         Inr (setState (INITIALIZED e r (READY_TO_RUN_PAGERANK g NOT_LOADING)) w1, True)
     | Inl x \<Rightarrow>
         Inr (setState (INITIALIZED e r (READY_TO_LOAD_GRAPH FAILED)) (console_error x w1),
              False))"
  using assms(3,4) unfolding w1_def loadingState_def
  by (rule loadGraph_fresh)

theorem loadGraph_commits_witness:
  "loadGraph example_machine (\<lambda>v. v) 0 example_ready =
     Inr (\<lparr>cell = INITIALIZED 5 ''sourcecred/example''
                    (READY_TO_RUN_PAGERANK \<lparr>graph = 1, adapters = 2\<rparr> NOT_LOADING),
           console = [],
           invoked = [LoadGraphWithAdapters_call 0 ''sourcecred/example'']\<rparr>, True)
   \<and> loadGraph example_machine (\<lambda>v. v) 0 example_missing =
     Inr (\<lparr>cell = INITIALIZED 5 ''missing'' (READY_TO_LOAD_GRAPH FAILED),
           console = [''not found''],
           invoked = [LoadGraphWithAdapters_call 0 ''missing'']\<rparr>, False)"
  using loadGraph_commits [where w = example_ready and e = 5 and r = "''sourcecred/example''"
        and l = NOT_LOADING and meanwhile = "\<lambda>v. v" and assets = 0 and m = example_machine]
    loadGraph_commits [where w = example_missing and e = 5 and r = "''missing''"
        and l = NOT_LOADING and meanwhile = "\<lambda>v. v" and assets = 0 and m = example_machine]
  by (simp add: world_ops examples)

text \<open>
  C1. A \<open>loadGraph\<close> that has committed its \<open>LOADING\<close> state waits for the loader;
  whatever ran first, the last thing to run before the loader settles is \<open>setRepo\<close>.
  Then, for every outcome of the loader, \<open>loadGraph\<close> returns \<open>false\<close> and the
  state it leaves is the one \<open>setRepo\<close> produced: the candidate is not committed.
\<close>

theorem loadGraph_setRepo_wins:
  assumes "getState w = INITIALIZED e r (READY_TO_LOAD_GRAPH l)"
  shows "\<exists>w'. loadGraph m (\<lambda>v. setRepo r2 (before v)) assets w = Inr (w', False)
     \<and> getState w' = getState (setRepo r2 (before
           (calling (LoadGraphWithAdapters_call assets r)
             (setState (INITIALIZED e r (READY_TO_LOAD_GRAPH LOADING)) w))))"
proof -
  have "getState ((\<lambda>v. setRepo r2 (before v))
          (calling (LoadGraphWithAdapters_call assets r)
            (setState (INITIALIZED e r (READY_TO_LOAD_GRAPH LOADING)) w)))
        \<noteq> INITIALIZED e r (READY_TO_LOAD_GRAPH LOADING)"
    by (simp add: setRepo_state)
  from loadGraph_stale_state [where meanwhile = "\<lambda>v. setRepo r2 (before v)", OF assms this]
  show ?thesis by simp
qed

theorem loadGraph_setRepo_wins_witness:
  "getState example_ready = INITIALIZED 5 ''sourcecred/example'' (READY_TO_LOAD_GRAPH NOT_LOADING)
   \<and> (\<exists>w'. loadGraph example_machine (\<lambda>v. setRepo ''other/repo'' v) 0 example_ready
              = Inr (w', False)
         \<and> getState w' = INITIALIZED 5 ''other/repo'' (READY_TO_LOAD_GRAPH NOT_LOADING))"
proof -
  have h: "getState example_ready
      = INITIALIZED 5 ''sourcecred/example'' (READY_TO_LOAD_GRAPH NOT_LOADING)"
    by (simp add: example_ready_def getState_def)
  from loadGraph_setRepo_wins
         [OF h, where m = example_machine and ?r2.0 = "''other/repo''"
            and before = "\<lambda>v. v" and assets = 0] h
  show ?thesis
    by (simp add: setRepo_def world_ops example_ready_def Let_def)
qed

text \<open>
  C10. The guard compares the whole state, the edge evaluator included. When the last
  thing to run before the loader settles is \<open>setEdgeEvaluator\<close> with an evaluator that
  \<open>deepEqual\<close> tells from the one of the loading state, that is, from the evaluator
  the state had when \<open>loadGraph\<close> was called, the candidate is discarded and
  \<open>loadGraph\<close> returns \<open>false\<close>, although the repository and the substate are
  untouched. The evaluator that counts is the one of the loading state, not the one the
  cell holds when \<open>setEdgeEvaluator\<close> is called.
\<close>

theorem loadGraph_setEdgeEvaluator_wins:
  assumes "getState w = INITIALIZED e r (READY_TO_LOAD_GRAPH l)" and "e2 \<noteq> e"
  shows "\<exists>w'. loadGraph m (\<lambda>v. setEdgeEvaluator e2 (before v)) assets w = Inr (w', False)
     \<and> getState w' = getState (setEdgeEvaluator e2 (before
           (calling (LoadGraphWithAdapters_call assets r)
             (setState (INITIALIZED e r (READY_TO_LOAD_GRAPH LOADING)) w))))"
proof -
  have "getState ((\<lambda>v. setEdgeEvaluator e2 (before v))
          (calling (LoadGraphWithAdapters_call assets r)
            (setState (INITIALIZED e r (READY_TO_LOAD_GRAPH LOADING)) w)))
        \<noteq> INITIALIZED e r (READY_TO_LOAD_GRAPH LOADING)"
    using assms(2) by (simp add: setEdgeEvaluator_state)
  from loadGraph_stale_state
    [where meanwhile = "\<lambda>v. setEdgeEvaluator e2 (before v)", OF assms(1) this]
  show ?thesis by simp
qed

theorem loadGraph_setEdgeEvaluator_wins_witness:
  "(6::nat) \<noteq> 5
   \<and> getState example_ready = INITIALIZED 5 ''sourcecred/example'' (READY_TO_LOAD_GRAPH NOT_LOADING)
   \<and> (\<exists>w'. loadGraph example_machine (\<lambda>v. setEdgeEvaluator 6 v) 0 example_ready
              = Inr (w', False)
         \<and> getState w' = INITIALIZED 6 ''sourcecred/example'' (READY_TO_LOAD_GRAPH LOADING))"
proof -
  have h: "getState example_ready
      = INITIALIZED 5 ''sourcecred/example'' (READY_TO_LOAD_GRAPH NOT_LOADING)"
    by (simp add: example_ready_def getState_def)
  have n: "(6::nat) \<noteq> 5" by simp
  from loadGraph_setEdgeEvaluator_wins
         [OF h n, where m = example_machine and before = "\<lambda>v. v" and assets = 0] h
  show ?thesis
    by (simp add: setEdgeEvaluator_def world_ops example_ready_def Let_def)
qed

text \<open>
  An evaluator that differs from the current one is not enough. While the load waits,
  \<open>setEdgeEvaluator\<close> is called with \<open>6\<close> and then with \<open>5\<close>, the evaluator of the
  loading state: the second call changes the evaluator of the cell, from \<open>6\<close> to
  \<open>5\<close>, and writes the loading state again, so \<open>loadGraph\<close> commits its candidate
  and returns \<open>true\<close>.
\<close>

theorem loadGraph_setEdgeEvaluator_counterexample:
  "getState (setEdgeEvaluator 6 (calling (LoadGraphWithAdapters_call 0 ''sourcecred/example'')
       (setState (INITIALIZED 5 ''sourcecred/example'' (READY_TO_LOAD_GRAPH LOADING))
          example_ready)))
     = INITIALIZED 6 ''sourcecred/example'' (READY_TO_LOAD_GRAPH LOADING)
   \<and> (5::nat) \<noteq> 6
   \<and> loadGraph example_machine (\<lambda>v. setEdgeEvaluator 5 (setEdgeEvaluator 6 v)) 0 example_ready =
       Inr (\<lparr>cell = INITIALIZED 5 ''sourcecred/example''
                      (READY_TO_RUN_PAGERANK \<lparr>graph = 1, adapters = 2\<rparr> NOT_LOADING),
             console = [],
             invoked = [LoadGraphWithAdapters_call 0 ''sourcecred/example'']\<rparr>, True)"
  by (simp add: loadGraph_def setEdgeEvaluator_def world_ops examples Let_def)

text \<open>
  C2. When the state read after the collaborator has settled differs from the loading
  state, \<open>loadGraph\<close> and \<open>runPagerank\<close> leave the state as they found it on resuming;
  \<open>loadGraph\<close> returns \<open>false\<close>, and \<open>runPagerank\<close> returns \<open>undefined\<close>, which
  is also what it returns when the state read is the loading state and it commits.
\<close>

theorem stale_guard_discards:
  fixes w :: "('e, 'r, 'g, 'd, 'p, 'x, 'a, 'n) world" and e :: 'e and r :: 'r and assets :: 'a
    and prefix :: 'n and sub :: "('g, 'd, 'p) AppSubstate"
    and meanwhile :: "('e, 'r, 'g, 'd, 'p, 'x, 'a, 'n) world \<Rightarrow> ('e, 'r, 'g, 'd, 'p, 'x, 'a, 'n) world"
  defines "wl \<equiv> meanwhile (calling (LoadGraphWithAdapters_call assets r)
                  (setState (INITIALIZED e r (READY_TO_LOAD_GRAPH LOADING)) w))"
  defines "wp \<equiv> meanwhile (calling (Pagerank_call (graph (graphWithAdapters sub)) e
                    \<lparr>verbose = True, totalScoreNodePrefix = prefix\<rparr>)
                  (setState (INITIALIZED e r (with_loading sub LOADING)) w))"
  shows "(getState w = INITIALIZED e r (READY_TO_LOAD_GRAPH l) \<longrightarrow>
          getState wl \<noteq> INITIALIZED e r (READY_TO_LOAD_GRAPH LOADING) \<longrightarrow>
          (\<exists>w'. loadGraph m meanwhile assets w = Inr (w', False) \<and> getState w' = getState wl))
       \<and> (getState w = INITIALIZED e r sub \<longrightarrow> \<not> is_READY_TO_LOAD_GRAPH sub \<longrightarrow>
          getState wp \<noteq> INITIALIZED e r (with_loading sub LOADING) \<longrightarrow>
          (\<exists>w'. runPagerank m meanwhile prefix w = Inr (w', ()) \<and> getState w' = getState wp))
       \<and> (getState w = INITIALIZED e r sub \<longrightarrow> \<not> is_READY_TO_LOAD_GRAPH sub \<longrightarrow>
          getState wp = INITIALIZED e r (with_loading sub LOADING) \<longrightarrow>
          (\<exists>w'. runPagerank m meanwhile prefix w = Inr (w', ())))"
  unfolding wl_def wp_def
  using loadGraph_stale_state [of w e r l meanwhile assets m]
    runPagerank_stale [of w e r sub meanwhile prefix m]
    runPagerank_fresh [of w e r sub meanwhile prefix m]
  by blast

theorem stale_guard_discards_witness:
  "(\<exists>w'. loadGraph example_machine (setRepo ''other/repo'') 0 example_ready = Inr (w', False)
        \<and> getState w' = INITIALIZED 5 ''other/repo'' (READY_TO_LOAD_GRAPH NOT_LOADING))
   \<and> (\<exists>w'. runPagerank example_machine (setRepo ''other/repo'') ''prefix'' example_loaded
              = Inr (w', ())
        \<and> getState w' = INITIALIZED 5 ''other/repo'' (READY_TO_LOAD_GRAPH NOT_LOADING))
   \<and> (\<exists>w'. runPagerank example_machine (\<lambda>v. v) ''prefix'' example_loaded = Inr (w', ()))"
  using stale_guard_discards [where w = example_ready and e = 5 and r = "''sourcecred/example''"
      and l = NOT_LOADING and meanwhile = "setRepo ''other/repo''" and assets = 0
      and m = example_machine]
    stale_guard_discards [where w = example_loaded and e = 5 and r = "''sourcecred/example''"
      and meanwhile = "setRepo ''other/repo''" and m = example_machine
      and sub = "READY_TO_RUN_PAGERANK \<lparr>graph = 1, adapters = 2\<rparr> NOT_LOADING"
      and prefix = "''prefix''"]
    stale_guard_discards [where w = example_loaded and e = 5 and r = "''sourcecred/example''"
      and meanwhile = "\<lambda>v. v" and m = example_machine
      and sub = "READY_TO_RUN_PAGERANK \<lparr>graph = 1, adapters = 2\<rparr> NOT_LOADING"
      and prefix = "''prefix''"]
  by (simp add: world_ops examples setRepo_def Let_def)

text \<open>
  The value \<open>runPagerank\<close> returns does not tell a discarded run from a committed
  one: with \<open>setRepo\<close> called while \<open>pagerank\<close> runs the candidate is discarded, with
  nothing called it is committed, and the caller gets \<open>undefined\<close> from both.
\<close>

theorem runPagerank_signal_counterexample:
  "runPagerank example_machine (setRepo ''other/repo'') ''prefix'' example_loaded =
     Inr (\<lparr>cell = INITIALIZED 5 ''other/repo'' (READY_TO_LOAD_GRAPH NOT_LOADING),
           console = [],
           invoked = [Pagerank_call 1 5 \<lparr>verbose = True, totalScoreNodePrefix = ''prefix''\<rparr>]\<rparr>,
          ())
   \<and> runPagerank example_machine (\<lambda>v. v) ''prefix'' example_loaded =
     Inr (\<lparr>cell = INITIALIZED 5 ''sourcecred/example''
                    (PAGERANK_EVALUATED \<lparr>graph = 1, adapters = 2\<rparr> 6 NOT_LOADING),
           console = [],
           invoked = [Pagerank_call 1 5 \<lparr>verbose = True, totalScoreNodePrefix = ''prefix''\<rparr>]\<rparr>,
          ())"
  by (simp add: runPagerank_def NullUtil_get_def setRepo_def world_ops examples Let_def)

subsection \<open>Loading and running in one call\<close>

text \<open>
  C9. \<open>loadGraphAndRunPagerank\<close> in a state \<open>READY_TO_LOAD_GRAPH\<close> with a loader that
  rejects. With nothing else running, the final world is the first one with the substate
  \<open>READY_TO_LOAD_GRAPH\<close>, \<open>FAILED\<close>, the thrown value printed and one call made, to the
  loader. Under every schedule the method ends when \<open>loadGraph\<close> has returned
  \<open>false\<close>, and \<open>loadGraph\<close> makes no call after the one to the loader:
  \<open>pagerank\<close> is not called.
\<close>

theorem loadGraphAndRunPagerank_loader_fails:
  assumes "getState w = INITIALIZED e r (READY_TO_LOAD_GRAPH l)"
    and "loadGraphWithAdapters m assets r = Inl x"
  shows "loadGraphAndRunPagerank m idle assets prefix w =
      Inr (w\<lparr>cell := INITIALIZED e r (READY_TO_LOAD_GRAPH FAILED),
             console := console w @ [x],
             invoked := invoked w @ [LoadGraphWithAdapters_call assets r]\<rparr>, ())
    \<and> (\<exists>w2. loadGraph m (during_load sched) assets w = Inr (w2, False)
          \<and> loadGraphAndRunPagerank m sched assets prefix w = Inr (after_load sched w2, ())
          \<and> invoked w2 = invoked (during_load sched
               (calling (LoadGraphWithAdapters_call assets r)
                 (setState (INITIALIZED e r (READY_TO_LOAD_GRAPH LOADING)) w))))"
proof
  show "loadGraphAndRunPagerank m idle assets prefix w =
      Inr (w\<lparr>cell := INITIALIZED e r (READY_TO_LOAD_GRAPH FAILED),
             console := console w @ [x],
             invoked := invoked w @ [LoadGraphWithAdapters_call assets r]\<rparr>, ())"
    using assms
    by (simp add: loadGraphAndRunPagerank_def loadGraph_def idle_def world_ops Let_def)
  show "\<exists>w2. loadGraph m (during_load sched) assets w = Inr (w2, False)
          \<and> loadGraphAndRunPagerank m sched assets prefix w = Inr (after_load sched w2, ())
          \<and> invoked w2 = invoked (during_load sched
               (calling (LoadGraphWithAdapters_call assets r)
                 (setState (INITIALIZED e r (READY_TO_LOAD_GRAPH LOADING)) w)))"
    using assms
    by (simp add: loadGraphAndRunPagerank_def loadGraph_def world_ops Let_def)
qed

theorem loadGraphAndRunPagerank_loader_fails_witness:
  "getState example_missing = INITIALIZED 5 ''missing'' (READY_TO_LOAD_GRAPH NOT_LOADING)
   \<and> loadGraphWithAdapters example_machine 0 ''missing'' = Inl ''not found''
   \<and> loadGraphAndRunPagerank example_machine idle 0 ''prefix'' example_missing =
       Inr (\<lparr>cell = INITIALIZED 5 ''missing'' (READY_TO_LOAD_GRAPH FAILED),
             console = [''not found''],
             invoked = [LoadGraphWithAdapters_call 0 ''missing'']\<rparr>, ())"
proof -
  have h: "getState example_missing = INITIALIZED 5 ''missing'' (READY_TO_LOAD_GRAPH NOT_LOADING)"
    by (simp add: example_missing_def getState_def)
  have f: "loadGraphWithAdapters example_machine 0 ''missing'' = Inl ''not found''"
    by (simp add: example_machine_def)
  from loadGraphAndRunPagerank_loader_fails [OF h f, where prefix = "''prefix''"] h f
  show ?thesis by (simp add: example_missing_def)
qed

end
